theory Spec2Isabelle
  imports Main
begin

section \<open>Values and errors\<close>

text \<open>
  Python values that travel through the engine: \<open>None\<close>, a measured number, or a list
  (one value per shot, or a list of per-register values).  Measured numbers are opaque to
  the engine, which only stores and copies them; they are modelled as integers.
\<close>

datatype val = VNone | VNum int | VList "val list"

text \<open>
  Exceptions of \<open>engine.py\<close>.  The formatted messages are kept as structured fields:
  \<open>RegisterMismatch k n\<close> is
  \<open>RuntimeError("Register mismatch: program {}, '{}'.".format(k, n))\<close>,
  \<open>JobAlreadyQueued\<close> is the \<open>TypeError\<close> of \<open>StarshipEngine._run_program\<close>,
  \<open>JobFailed\<close> and \<open>JobNotSent\<close> are its two \<open>Exception\<close>s.
\<close>

datatype error =
    RegisterMismatch nat string
  | NotApplicableError string
  | NotImplementedError string int
  | JobAlreadyQueued
  | JobFailed
  | JobNotSent
  | KeyboardInterrupt
  | TypeError
  | IndexError
  | KeyError nat
  | ValueError
  | Raised string

section \<open>Result\<close>

text \<open>
  \<open>numpy.shape\<close> of a nested list: the dimensions of the rectangular array it denotes.
  A ragged nesting has no shape (\<open>None\<close>); current numpy raises \<open>ValueError\<close> there.
\<close>

fun np_shape :: "val \<Rightarrow> nat list option" where
  "np_shape VNone = Some []"
| "np_shape (VNum n) = Some []"
| "np_shape (VList xs) =
     (case map np_shape xs of
        [] \<Rightarrow> Some [0]
      | s # ss \<Rightarrow>
          (case s of
             None \<Rightarrow> None
           | Some d \<Rightarrow> if list_all (\<lambda>t. t = Some d) ss then Some (length xs # d) else None))"

fun items :: "val \<Rightarrow> val list" where
  "items (VList xs) = xs"
| "items v = []"

text \<open>
  \<open>numpy.stack(arrays, 1)\<close> on arrays of one common shape \<open>n # d\<close>: entry \<open>i\<close> of the
  result collects entry \<open>i\<close> of every input array, in the order of the arrays.
\<close>

definition stack1 :: "val list \<Rightarrow> val" where
  "stack1 arrays =
     VList (map (\<lambda>i. VList (map (\<lambda>a. items a ! i) arrays)) [0..<length (items (hd arrays))])"

text \<open>
  The backend is an external collaborator.  The engine sees it only through the calls it
  makes on it, so the backend object is modelled by the list of those calls, oldest first;
  whatever a deterministic backend answers is a function of that list.  The state object
  returned by \<open>backend.state(modes, **state_options)\<close> is likewise identified with the
  calls that produced it.
\<close>

type_synonym options = "string \<rightharpoonup> val"

datatype backend_call =
    BeginCircuit nat options
  | Apply string "nat list" int
  | Reset options
  | State "nat list option" options

record Result =
  state :: "backend_call list option"
  samples :: val

text \<open>\<open>Result.__init__\<close> (lines 94 to 101).\<close>

definition Result_init :: "val \<Rightarrow> error + Result" where
  "Result_init smp =
     (case np_shape smp of
        None \<Rightarrow> Inl ValueError
      | Some d \<Rightarrow>
          if length d > 1
          then Inr \<lparr>state = None, samples = stack1 (items smp)\<rparr>
          else Inr \<lparr>state = None, samples = smp\<rparr>)"

section \<open>Programs, register references and the object store\<close>

text \<open>
  \<open>Program\<close> and \<open>RegRef\<close> objects are shared mutable Python objects: the engine keeps
  references to programs in \<open>run_progs\<close>, writes \<open>p.reg_refs[k].val\<close>, and a compiled
  program may share its \<open>RegRef\<close>s with the program it was compiled from.  Programs and
  register references are therefore addressed through a store.  A program's
  \<open>reg_refs\<close> dictionary maps a register index to the address of a \<open>RegRef\<close>; the
  \<open>val\<close> attribute of a \<open>RegRef\<close> is read with \<open>regval\<close>.  An operation is opaque
  to the engine and named by a string.
\<close>

type_synonym pid = nat
type_synonym rid = nat

record command =
  op :: string
  reg :: "rid list"

record Program =
  name :: string
  init_num_subsystems :: nat
  backend :: "string option"
  reg_refs :: "(nat \<times> rid) list"
  circuit :: "command list"
  locked :: bool

record heap =
  progs :: "pid \<Rightarrow> Program"
  regval :: "rid \<Rightarrow> val"

text \<open>
  Modelled from the spec: \<open>Program.lock\<close> is not in \<open>engine.py\<close>.  "A program unit,
  once run, is locked": the call marks the program object as locked and changes nothing
  else.
\<close>

definition lock :: "pid \<Rightarrow> heap \<Rightarrow> heap" where
  "lock p h = h\<lparr>progs := (progs h)(p := (progs h p)\<lparr>locked := True\<rparr>)\<rparr>"

text \<open>
  Modelled from the spec: \<open>Program._clear_regrefs\<close> is not in \<open>engine.py\<close>.  Reset
  "clears each historical unit's register-reference measured values" and "must not alter
  the register structure of any program unit, only measured values": every \<open>RegRef\<close> of
  the program gets the value \<open>None\<close>.
\<close>

definition clear_regrefs :: "pid \<Rightarrow> heap \<Rightarrow> heap" where
  "clear_regrefs p h =
     h\<lparr>regval := fold (\<lambda>kr rv. rv(snd kr := VNone)) (reg_refs (progs h p)) (regval h)\<rparr>"

section \<open>The remote job and the collaborators\<close>

record Job =
  job_id :: "string option"
  is_complete :: bool
  is_failed :: bool
  result :: val

text \<open>
  What happens at one \<open>job.reload()\<close> of the polling loop: the service answers with the
  refreshed job, or the \<open>KeyboardInterrupt\<close> of the user arrives.
\<close>

datatype poll_event = Reload Job | Interrupt

datatype request = Create string | ReloadJob | GetResult

text \<open>
  The collaborators that \<open>engine.py\<close> calls and does not define, taken as parameters:
  \<open>p.can_follow(prev)\<close>, \<open>p.compile(backend_name, **compile_options)\<close> (which returns
  a program object and may allocate it),
  \<open>cmd.op.apply(cmd.reg, backend, shots=shots)\<close> (which may write \<open>RegRef\<close> values and
  may raise), \<open>program.get_blackbird_syntax()\<close>, \<open>uuid.uuid4()\<close>, and the job service:
  the job as it is after \<open>job.manager.create\<close>, and what the successive reloads bring.
\<close>

record env =
  can_follow :: "heap \<Rightarrow> pid \<Rightarrow> pid \<Rightarrow> bool"
  compile :: "heap \<Rightarrow> pid \<Rightarrow> string \<Rightarrow> options \<Rightarrow> error + pid \<times> heap"
  apply_op :: "backend_call list \<Rightarrow> (rid \<Rightarrow> val) \<Rightarrow> string \<Rightarrow> rid list \<Rightarrow> int \<Rightarrow> error + (rid \<Rightarrow> val)"
  get_blackbird_syntax :: "Program \<Rightarrow> string"
  uuid4 :: string
  create_job :: "string \<Rightarrow> error + Job"
  poll :: "poll_event list"

section \<open>BaseEngine\<close>

text \<open>
  \<open>self.samples\<close> is \<open>None\<close> or the iterator made by \<open>map(_normalize_sample, reg_refs)\<close>.
  \<open>_normalize_sample\<close> is pure and \<open>reg_refs\<close> is a list built for the occasion, so the
  iterator is determined by the values it has still to yield.
\<close>

datatype samples_attr = SNone | MapIter "val list"

record BaseEngine =
  backend_name :: string
  backend_options :: options
  run_progs :: "pid list"
  samples :: samples_attr
  heap :: heap

text \<open>\<open>BaseEngine.reset\<close> (lines 149 to 153).\<close>

definition BaseEngine_reset :: "options \<Rightarrow> 'z BaseEngine_scheme \<Rightarrow> 'z BaseEngine_scheme" where
  "BaseEngine_reset opts s =
     s\<lparr>backend_options := backend_options s ++ opts,
       heap := fold clear_regrefs (run_progs s) (heap s),
       run_progs := [],
       samples := SNone\<rparr>"

text \<open>\<open>_normalize_sample\<close> (lines 216 to 220).\<close>

definition normalize_sample :: "int \<Rightarrow> val \<Rightarrow> val" where
  "normalize_sample shots v =
     (if v = VNone \<and> shots > 1 then VList (replicate (nat shots) VNone) else v)"

text \<open>
  Lines 250 and 251, \<open>for k, v in enumerate(self.samples): p.reg_refs[k].val = v\<close>:
  the result, what the iterator has left, and the register values.  A missing key raises
  \<open>KeyError\<close> after the value has been taken from the iterator.
\<close>

fun copy_samples ::
  "(nat \<times> rid) list \<Rightarrow> nat \<Rightarrow> val list \<Rightarrow> (rid \<Rightarrow> val) \<Rightarrow> (error + unit) \<times> val list \<times> (rid \<Rightarrow> val)" where
  "copy_samples rr k [] rv = (Inr (), [], rv)"
| "copy_samples rr k (v # vs) rv =
     (case map_of rr k of
        None \<Rightarrow> (Inl (KeyError k), vs, rv)
      | Some r \<Rightarrow> copy_samples rr (Suc k) vs (rv(r := v)))"

text \<open>Line 261, \<open>[p.reg_refs[k].val for k in sorted(p.reg_refs)]\<close>.\<close>

definition sorted_vals :: "heap \<Rightarrow> pid \<Rightarrow> val list" where
  "sorted_vals h p =
     (let rr = reg_refs (progs h p)
      in List.map_filter (\<lambda>k. map_option (regval h) (map_of rr k)) (sort (remdups (map fst rr))))"

text \<open>
  The body of the loop of \<open>BaseEngine._run\<close> (lines 240 to 263) for one program \<open>p\<close>;
  \<open>_init_backend\<close> and \<open>_run_program\<close> are the methods of the subclass.  It returns
  the program that was run, which is the next \<open>prev\<close>.  The \<open>_run_program\<close> of the
  remote engine waits in a loop and need not return: no value (\<open>None\<close>) stands for a call
  that is still waiting.
\<close>

definition run_unit ::
  "env \<Rightarrow> (nat \<Rightarrow> 'z BaseEngine_scheme \<Rightarrow> 'z BaseEngine_scheme) \<Rightarrow>
   (pid \<Rightarrow> int \<Rightarrow> 'z BaseEngine_scheme \<Rightarrow> ((error + 'r) \<times> 'z BaseEngine_scheme) option) \<Rightarrow>
   int \<Rightarrow> options \<Rightarrow> pid option \<Rightarrow> pid \<Rightarrow> 'z BaseEngine_scheme \<Rightarrow>
   ((error + pid) \<times> 'z BaseEngine_scheme) option" where
  "run_unit e init_backend run_program shots compile_options prev p s =
     (case (case prev of
              None \<Rightarrow> (Inr (), init_backend (init_num_subsystems (progs (heap s) p)) s)
            | Some q \<Rightarrow>
                if \<not> can_follow e (heap s) p q
                then (Inl (RegisterMismatch (length (run_progs s)) (name (progs (heap s) p))), s)
                else (case samples s of
                        SNone \<Rightarrow> (Inl TypeError, s)
                      | MapIter vs \<Rightarrow>
                          (case copy_samples (reg_refs (progs (heap s) p)) 0 vs (regval (heap s)) of
                             (r, vs', rv') \<Rightarrow>
                               (r, s\<lparr>samples := MapIter vs', heap := (heap s)\<lparr>regval := rv'\<rparr>\<rparr>)))) of
        (Inl err, s1) \<Rightarrow> Some (Inl err, s1)
      | (Inr _, s1) \<Rightarrow>
          (case (if Program.backend (progs (heap s1) p) \<noteq> Some (backend_name s1)
                 then compile e (heap s1) p (backend_name s1) compile_options
                 else Inr (p, heap s1)) of
             Inl err \<Rightarrow> Some (Inl err, s1)
           | Inr (p', h') \<Rightarrow>
               (case run_program p' shots (s1\<lparr>heap := lock p' h'\<rparr>) of
                  None \<Rightarrow> None
                | Some (Inl err, s2) \<Rightarrow> Some (Inl err, s2)
                | Some (Inr _, s2) \<Rightarrow>
                    (let s3 = s2\<lparr>run_progs := run_progs s2 @ [p']\<rparr>;
                         reg_vals = sorted_vals (heap s3) p'
                     in Some (Inr p', s3\<lparr>samples := MapIter (map (normalize_sample shots) reg_vals)\<rparr>)))))"

text \<open>The loop of lines 239 to 263.\<close>

fun run_units ::
  "env \<Rightarrow> (nat \<Rightarrow> 'z BaseEngine_scheme \<Rightarrow> 'z BaseEngine_scheme) \<Rightarrow>
   (pid \<Rightarrow> int \<Rightarrow> 'z BaseEngine_scheme \<Rightarrow> ((error + 'r) \<times> 'z BaseEngine_scheme) option) \<Rightarrow>
   int \<Rightarrow> options \<Rightarrow> pid option \<Rightarrow> pid list \<Rightarrow> 'z BaseEngine_scheme \<Rightarrow>
   ((error + unit) \<times> 'z BaseEngine_scheme) option" where
  "run_units e init_backend run_program shots compile_options prev [] s = Some (Inr (), s)"
| "run_units e init_backend run_program shots compile_options prev (p # ps) s =
     (case run_unit e init_backend run_program shots compile_options prev p s of
        None \<Rightarrow> None
      | Some (Inl err, s') \<Rightarrow> Some (Inl err, s')
      | Some (Inr p', s') \<Rightarrow> run_units e init_backend run_program shots compile_options (Some p') ps s')"

text \<open>
  \<open>BaseEngine._run\<close> when the backend is not a hardware backend (lines 238 to 265).
  \<open>list(self.samples)\<close> exhausts the iterator, which stays in \<open>self.samples\<close>.
\<close>

definition BaseEngine_run_local ::
  "env \<Rightarrow> (nat \<Rightarrow> 'z BaseEngine_scheme \<Rightarrow> 'z BaseEngine_scheme) \<Rightarrow>
   (pid \<Rightarrow> int \<Rightarrow> 'z BaseEngine_scheme \<Rightarrow> ((error + 'r) \<times> 'z BaseEngine_scheme) option) \<Rightarrow>
   pid list \<Rightarrow> int \<Rightarrow> options \<Rightarrow> 'z BaseEngine_scheme \<Rightarrow>
   ((error + Result) \<times> 'z BaseEngine_scheme) option" where
  "BaseEngine_run_local e init_backend run_program program shots compile_options s =
     (let prev = (if run_progs s \<noteq> [] then Some (last (run_progs s)) else None)
      in case run_units e init_backend run_program shots compile_options prev program s of
           None \<Rightarrow> None
         | Some (Inl err, s') \<Rightarrow> Some (Inl err, s')
         | Some (Inr _, s') \<Rightarrow>
             (case samples s' of
                SNone \<Rightarrow> Some (Inl TypeError, s')
              | MapIter vs \<Rightarrow> Some (Result_init (VList vs), s'\<lparr>samples := MapIter []\<rparr>)))"

text \<open>
  \<open>BaseEngine._run\<close> when \<open>backend_name\<close> is one of the \<open>HARDWARE_BACKENDS\<close>
  (lines 231 to 236).
\<close>

definition BaseEngine_run_hardware ::
  "env \<Rightarrow> (pid \<Rightarrow> int \<Rightarrow> 'z BaseEngine_scheme \<Rightarrow> ((error + val) \<times> 'z BaseEngine_scheme) option) \<Rightarrow>
   pid list \<Rightarrow> int \<Rightarrow> 'z BaseEngine_scheme \<Rightarrow>
   ((error + Result) \<times> 'z BaseEngine_scheme) option" where
  "BaseEngine_run_hardware e run_program program shots s =
     (case program of
        [] \<Rightarrow> Some (Inl IndexError, s)
      | p0 # _ \<Rightarrow>
          (case compile e (heap s) p0 (backend_name s) Map.empty of
             Inl err \<Rightarrow> Some (Inl err, s)
           | Inr (p, h') \<Rightarrow>
               (let s1 = s\<lparr>heap := lock p h'\<rparr>;
                    s2 = s1\<lparr>run_progs := run_progs s1 @ [p]\<rparr>
                in case run_program p shots s2 of
                     None \<Rightarrow> None
                   | Some (Inl err, s3) \<Rightarrow> Some (Inl err, s3)
                   | Some (Inr smp, s3) \<Rightarrow> Some (Result_init smp, s3))))"

section \<open>LocalEngine\<close>

record LocalEngine = BaseEngine +
  backend :: "backend_call list"

text \<open>
  \<open>LocalEngine.__init__\<close> with the name of a backend (lines 278 to 284, over
  \<open>BaseEngine.__init__\<close>, lines 115 to 126); \<open>h\<close> is the store with the programs of the
  caller.  The backend that \<open>load_backend\<close> returns has received no call yet.
\<close>

definition LocalEngine_init :: "string \<Rightarrow> options \<Rightarrow> heap \<Rightarrow> LocalEngine" where
  "LocalEngine_init backend_arg backend_options_arg h =
     \<lparr>backend_name = backend_arg, backend_options = backend_options_arg,
      run_progs = [], samples = SNone, heap = h, backend = []\<rparr>"

text \<open>\<open>LocalEngine.reset\<close> (lines 294 to 300).\<close>

definition LocalEngine_reset :: "options option \<Rightarrow> 'z LocalEngine_scheme \<Rightarrow> 'z LocalEngine_scheme" where
  "LocalEngine_reset backend_options_arg s =
     (let opts = (case backend_options_arg of None \<Rightarrow> Map.empty | Some d \<Rightarrow> d);
          s1 = BaseEngine_reset opts s;
          s2 = s1\<lparr>backend_options := (backend_options s1)(''batch_size'' := None)\<rparr>
      in s2\<lparr>LocalEngine.backend := LocalEngine.backend s2 @ [Reset (backend_options s2)]\<rparr>)"

text \<open>\<open>LocalEngine._init_backend\<close> (lines 303 and 304).\<close>

definition LocalEngine_init_backend :: "nat \<Rightarrow> 'z LocalEngine_scheme \<Rightarrow> 'z LocalEngine_scheme" where
  "LocalEngine_init_backend init_num_subsystems_arg s =
     s\<lparr>LocalEngine.backend :=
         LocalEngine.backend s @ [BeginCircuit init_num_subsystems_arg (backend_options s)]\<rparr>"

text \<open>
  The handlers of lines 313 to 318: the two errors of the backend are raised again with
  a message that names the operation (and the keyword arguments); anything else passes.
\<close>

fun reraise :: "string \<Rightarrow> int \<Rightarrow> error \<Rightarrow> error" where
  "reraise c shots (NotApplicableError m) = NotApplicableError c"
| "reraise c shots (NotImplementedError m k) = NotImplementedError c shots"
| "reraise c shots err = err"

text \<open>\<open>LocalEngine._run_program\<close> (lines 306 to 319); the loop carries \<open>applied\<close>.\<close>

fun apply_commands ::
  "env \<Rightarrow> int \<Rightarrow> command list \<Rightarrow> command list \<Rightarrow> 'z LocalEngine_scheme \<Rightarrow>
   (error + command list) \<times> 'z LocalEngine_scheme" where
  "apply_commands e shots [] applied s = (Inr applied, s)"
| "apply_commands e shots (cmd # cmds) applied s =
     (let s1 = s\<lparr>LocalEngine.backend := LocalEngine.backend s @ [Apply (op cmd) (reg cmd) shots]\<rparr>
      in case apply_op e (LocalEngine.backend s) (regval (heap s)) (op cmd) (reg cmd) shots of
           Inl err \<Rightarrow> (Inl (reraise (op cmd) shots err), s1)
         | Inr rv \<Rightarrow>
             apply_commands e shots cmds (applied @ [cmd]) (s1\<lparr>heap := (heap s1)\<lparr>regval := rv\<rparr>\<rparr>))"

definition LocalEngine_run_program ::
  "env \<Rightarrow> pid \<Rightarrow> int \<Rightarrow> 'z LocalEngine_scheme \<Rightarrow> (error + command list) \<times> 'z LocalEngine_scheme" where
  "LocalEngine_run_program e prog shots s =
     apply_commands e shots (circuit (progs (heap s) prog)) [] s"

text \<open>
  \<open>BaseEngine._run\<close> on a \<open>LocalEngine\<close>: the class has no \<open>HARDWARE_BACKENDS\<close>, so
  \<open>getattr(self, "HARDWARE_BACKENDS", [])\<close> is empty and line 230 is false.
\<close>

definition LocalEngine_super_run ::
  "env \<Rightarrow> pid list \<Rightarrow> int \<Rightarrow> options \<Rightarrow> 'z LocalEngine_scheme \<Rightarrow>
   ((error + Result) \<times> 'z LocalEngine_scheme) option" where
  "LocalEngine_super_run e program shots compile_options s =
     BaseEngine_run_local e LocalEngine_init_backend
       (\<lambda>prog k t. Some (LocalEngine_run_program e prog k t))
       program shots compile_options s"

text \<open>
  \<open>LocalEngine.run\<close> (lines 340 to 346); \<open>modes\<close> is \<open>None\<close> or a sequence of modes.
\<close>

definition LocalEngine_run ::
  "env \<Rightarrow> pid list \<Rightarrow> int \<Rightarrow> options \<Rightarrow> nat list option \<Rightarrow> options \<Rightarrow> 'z LocalEngine_scheme \<Rightarrow>
   ((error + Result) \<times> 'z LocalEngine_scheme) option" where
  "LocalEngine_run e program shots compile_options modes state_options s =
     (case LocalEngine_super_run e program shots compile_options s of
        None \<Rightarrow> None
      | Some (Inl err, s') \<Rightarrow> Some (Inl err, s')
      | Some (Inr res, s') \<Rightarrow>
          if modes = Some [] then Some (Inr res, s')
          else (let b = LocalEngine.backend s' @ [State modes state_options]
                in Some (Inr (res\<lparr>state := Some b\<rparr>), s'\<lparr>LocalEngine.backend := b\<rparr>)))"

section \<open>StarshipEngine\<close>

text \<open>
  \<open>requests\<close> lists the calls made through the API client and \<open>printed\<close> the lines
  written to standard output.
\<close>

record StarshipEngine = BaseEngine +
  jobs :: "Job list"
  requests :: "request list"
  printed :: "string list"

definition API_DEFAULT_REFRESH_SECONDS :: nat where
  "API_DEFAULT_REFRESH_SECONDS = 0"

definition HARDWARE_BACKENDS :: "string list" where
  "HARDWARE_BACKENDS = [''chip0'']"

text \<open>\<open>StarshipEngine.__init__\<close> (lines 363 to 369): the backend is always \<open>chip0\<close>.\<close>

definition StarshipEngine_init :: "heap \<Rightarrow> StarshipEngine" where
  "StarshipEngine_init h =
     \<lparr>backend_name = ''chip0'', backend_options = Map.empty,
      run_progs = [], samples = SNone, heap = h, jobs = [], requests = [], printed = []\<rparr>"

text \<open>\<open>StarshipEngine.reset\<close> (lines 374 to 383).\<close>

definition StarshipEngine_reset ::
  "options option \<Rightarrow> 'z StarshipEngine_scheme \<Rightarrow> 'z StarshipEngine_scheme" where
  "StarshipEngine_reset backend_options_arg s =
     (let opts = (case backend_options_arg of None \<Rightarrow> Map.empty | Some d \<Rightarrow> d)
      in (BaseEngine_reset opts s)\<lparr>jobs := []\<rparr>)"

text \<open>\<open>StarshipEngine._init_backend\<close> (lines 385 to 390) does nothing.\<close>

definition StarshipEngine_init_backend :: "nat \<Rightarrow> 'z StarshipEngine_scheme \<Rightarrow> 'z StarshipEngine_scheme" where
  "StarshipEngine_init_backend n s = s"

text \<open>
  \<open>generate_job_content\<close> (lines 392 to 418): the template is filled in, stripped, split
  into lines, every line is stripped and the lines are joined again.
\<close>

definition is_space :: "char \<Rightarrow> bool" where
  "is_space c = (c \<in> set [CHR '' '', CHR 0x09, CHR 0x0A, CHR 0x0B, CHR 0x0C, CHR 0x0D,
                           CHR 0x1C, CHR 0x1D, CHR 0x1E, CHR 0x1F])"

definition strip :: "string \<Rightarrow> string" where
  "strip s = rev (dropWhile is_space (rev (dropWhile is_space s)))"

fun split_lines :: "string \<Rightarrow> string list" where
  "split_lines [] = [[]]"
| "split_lines (c # cs) =
     (if c = CHR 0x0A then [] # split_lines cs
      else (case split_lines cs of l # ls \<Rightarrow> (c # l) # ls | [] \<Rightarrow> [[c]]))"

fun join_lines :: "string list \<Rightarrow> string" where
  "join_lines [] = []"
| "join_lines [l] = l"
| "join_lines (l # ls) = l @ [CHR 0x0A] @ join_lines ls"

fun digits :: "nat \<Rightarrow> string" where
  "digits n = (if n < 10 then [char_of (48 + n)] else digits (n div 10) @ [char_of (48 + n mod 10)])"

definition str_int :: "int \<Rightarrow> string" where
  "str_int i = (if i < 0 then CHR ''-'' # digits (nat (- i)) else digits (nat i))"

definition generate_job_content :: "string \<Rightarrow> string \<Rightarrow> int \<Rightarrow> string \<Rightarrow> string" where
  "generate_job_content target name_arg shots blackbird_code =
     (let ind = replicate 12 CHR '' '';
          nl = [CHR 0x0A];
          template = nl @ ind @ ''name '' @ name_arg @ nl
                   @ ind @ ''version 1.0'' @ nl
                   @ ind @ ''target '' @ target @ '' (shots='' @ str_int shots @ '')'' @ nl
                   @ nl
                   @ ind @ blackbird_code @ nl
                   @ replicate 8 CHR '' ''
      in join_lines (map strip (split_lines (strip template))))"

text \<open>
  The \<open>try\<close> block of \<open>StarshipEngine._run_program\<close> up to the end of the \<open>while\<close> loop
  (lines 449 to 453), run against what the reloads bring: how the loop ends, the job as
  it is then, and the number of reloads made.  When the events run out while the job is
  still incomplete the loop has not returned, and the value is \<open>None\<close>.
\<close>

datatype wait_outcome = Completed | Failed | Interrupted

fun wait_loop :: "Job \<Rightarrow> poll_event list \<Rightarrow> (wait_outcome \<times> Job \<times> nat) option" where
  "wait_loop job [] = (if is_complete job then Some (Completed, job, 0) else None)"
| "wait_loop job (ev # evs) =
     (if is_complete job then Some (Completed, job, 0)
      else (case ev of
              Interrupt \<Rightarrow> Some (Interrupted, job, 0)
            | Reload job' \<Rightarrow>
                if is_failed job' then Some (Failed, job', 1)
                else map_option (\<lambda>(out, j, n). (out, j, Suc n)) (wait_loop job' evs)))"

text \<open>\<open>StarshipEngine._run_program\<close> (lines 438 to 462).\<close>

definition StarshipEngine_run_program ::
  "env \<Rightarrow> string \<Rightarrow> pid \<Rightarrow> int \<Rightarrow> 'z StarshipEngine_scheme \<Rightarrow>
   ((error + val) \<times> 'z StarshipEngine_scheme) option" where
  "StarshipEngine_run_program e name_arg program shots s =
     (let blackbird_code = get_blackbird_syntax e (progs (heap s) program);
          job_content = generate_job_content (backend_name s) name_arg shots blackbird_code
      in if jobs s \<noteq> [] then Some (Inl JobAlreadyQueued, s)
         else (case create_job e job_content of
                 Inl err \<Rightarrow> Some (Inl err, s\<lparr>requests := requests s @ [Create job_content]\<rparr>)
               | Inr job0 \<Rightarrow>
                   (case wait_loop job0 (poll e) of
                      None \<Rightarrow> None
                    | Some (out, job, n) \<Rightarrow>
                        (let s1 = s\<lparr>requests := requests s @ [Create job_content] @ replicate n ReloadJob,
                                    jobs := jobs s @ [job]\<rparr>
                         in case out of
                              Completed \<Rightarrow>
                                Some (Inr (result job), s1\<lparr>requests := requests s1 @ [GetResult]\<rparr>)
                            | Failed \<Rightarrow> Some (Inl JobFailed, s1)
                            | Interrupted \<Rightarrow>
                                (case job_id job of
                                   Some i \<Rightarrow>
                                     Some (Inr VNone,
                                           s1\<lparr>printed := printed s1 @ [''Job '' @ i @ '' is queued in the background.'']\<rparr>)
                                 | None \<Rightarrow> Some (Inl JobNotSent, s1))))))"

text \<open>
  \<open>StarshipEngine.run\<close> (lines 464 to 469) with \<open>BaseEngine._run\<close>: the name is
  \<open>name or str(uuid.uuid4())\<close>, and line 230 decides between the two ways of running.
\<close>

definition name_or_uuid :: "env \<Rightarrow> string option \<Rightarrow> string" where
  "name_or_uuid e name_opt =
     (case name_opt of None \<Rightarrow> uuid4 e | Some n \<Rightarrow> if n = [] then uuid4 e else n)"

definition StarshipEngine_run ::
  "env \<Rightarrow> pid list \<Rightarrow> int \<Rightarrow> string option \<Rightarrow> 'z StarshipEngine_scheme \<Rightarrow>
   ((error + Result) \<times> 'z StarshipEngine_scheme) option" where
  "StarshipEngine_run e program shots name_opt s =
     (let name_arg = name_or_uuid e name_opt
      in if backend_name s \<in> set HARDWARE_BACKENDS
         then BaseEngine_run_hardware e (StarshipEngine_run_program e name_arg) program shots s
         else BaseEngine_run_local e StarshipEngine_init_backend
                (StarshipEngine_run_program e name_arg) program shots Map.empty s)"

section \<open>Sample inputs\<close>

definition smp23 :: val where
  "smp23 = VList [VList [VNum 1, VNum 2, VNum 3], VList [VNum 4, VNum 5, VNum 6]]"

subsection \<open>A remote job service\<close>

text \<open>
  One program compiled for \<open>chip0\<close>, and a job service that accepts every submission
  with the job \<open>job0\<close> and then brings the events \<open>evs\<close>.
\<close>

definition chip_prog :: Program where
  "chip_prog = \<lparr>name = ''gbs'', init_num_subsystems = 1, backend = Some ''chip0'',
                reg_refs = [(0, 0)], circuit = [\<lparr>op = ''MeasureFock'', reg = [0]\<rparr>], locked = False\<rparr>"

definition chip_heap :: heap where
  "chip_heap = \<lparr>progs = (\<lambda>p. chip_prog), regval = (\<lambda>r. VNone)\<rparr>"

definition job_queued :: Job where
  "job_queued = \<lparr>job_id = Some ''7'', is_complete = False, is_failed = False, result = VNone\<rparr>"

definition job_unsent :: Job where
  "job_unsent = \<lparr>job_id = None, is_complete = False, is_failed = False, result = VNone\<rparr>"

definition job_failed :: Job where
  "job_failed = \<lparr>job_id = Some ''7'', is_complete = False, is_failed = True, result = VNone\<rparr>"

definition job_done :: Job where
  "job_done = \<lparr>job_id = Some ''7'', is_complete = True, is_failed = False,
               result = VList [VNum 1, VNum 0]\<rparr>"

definition service_env :: "Job \<Rightarrow> poll_event list \<Rightarrow> env" where
  "service_env job0 evs =
     \<lparr>can_follow = (\<lambda>h p q. True),
      compile = (\<lambda>h p b opts. Inr (p, h)),
      apply_op = (\<lambda>b rv c rs k. Inr rv),
      get_blackbird_syntax = (\<lambda>p. ''MeasureFock() | [0]''),
      uuid4 = ''job'',
      create_job = (\<lambda>c. Inr job0),
      poll = evs\<rparr>"

subsection \<open>Backend options\<close>

definition no_options :: options where
  "no_options = Map.empty"

definition batch_options :: options where
  "batch_options = [''batch_size'' \<mapsto> VNum 2, ''cutoff_dim'' \<mapsto> VNum 5]"

subsection \<open>Programs for a local backend\<close>

text \<open>
  Three programs compiled for the backend \<open>fock\<close>.  \<open>prog_A\<close> measures register 0,
  \<open>prog_B\<close> has two registers of its own and no commands, \<open>prog_C\<close> has three
  registers.  In \<open>local_env\<close> a program can follow another when both have the same number
  of registers, compilation returns the program itself, and \<open>MeasureFock\<close> writes the
  outcome 3 (once per shot when there are several shots) to the registers it is applied
  to; every other operation leaves the registers as they are.
\<close>

definition prog_A :: Program where
  "prog_A = \<lparr>name = ''A'', init_num_subsystems = 2, backend = Some ''fock'',
             reg_refs = [(0, 0), (1, 1)], circuit = [\<lparr>op = ''MeasureFock'', reg = [0]\<rparr>],
             locked = False\<rparr>"

definition prog_B :: Program where
  "prog_B = \<lparr>name = ''B'', init_num_subsystems = 2, backend = Some ''fock'',
             reg_refs = [(0, 2), (1, 3)], circuit = [], locked = False\<rparr>"

definition prog_C :: Program where
  "prog_C = \<lparr>name = ''C'', init_num_subsystems = 3, backend = Some ''fock'',
             reg_refs = [(0, 4), (1, 5), (2, 6)], circuit = [], locked = False\<rparr>"

definition local_heap :: heap where
  "local_heap = \<lparr>progs = (\<lambda>p. if p = 0 then prog_A else if p = 1 then prog_B else prog_C),
                 regval = (\<lambda>r. VNone)\<rparr>"

definition measure_outcome :: "int \<Rightarrow> val" where
  "measure_outcome shots = (if shots > 1 then VList (replicate (nat shots) (VNum 3)) else VNum 3)"

definition local_env :: env where
  "local_env =
     \<lparr>can_follow = (\<lambda>h p q. length (reg_refs (progs h p)) = length (reg_refs (progs h q))),
      compile = (\<lambda>h p b opts. Inr (p, h)),
      apply_op = (\<lambda>b rv c rs k.
         if c = ''MeasureFock'' then Inr (fold (\<lambda>r f. f(r := measure_outcome k)) rs rv) else Inr rv),
      get_blackbird_syntax = (\<lambda>p. []),
      uuid4 = ''job'',
      create_job = (\<lambda>c. Inl (Raised ''no service'')),
      poll = []\<rparr>"

subsection \<open>Observations\<close>

text \<open>
  The register counts of the \<open>begin_circuit\<close> calls that a backend has received, oldest
  first.
\<close>

fun begin_circuits :: "backend_call list \<Rightarrow> nat list" where
  "begin_circuits [] = []"
| "begin_circuits (BeginCircuit n opts # cs) = n # begin_circuits cs"
| "begin_circuits (c # cs) = begin_circuits cs"

text \<open>
  Running the programs one at a time, each in a call of \<open>_run\<close> of its own; the result is
  that of the last call, or of the first call that fails.
\<close>

fun run_one_at_a_time ::
  "env \<Rightarrow> pid list \<Rightarrow> int \<Rightarrow> options \<Rightarrow> 'z LocalEngine_scheme \<Rightarrow>
   ((error + Result) \<times> 'z LocalEngine_scheme) option" where
  "run_one_at_a_time e [] shots compile_options s = None"
| "run_one_at_a_time e [p] shots compile_options s =
     LocalEngine_super_run e [p] shots compile_options s"
| "run_one_at_a_time e (p # ps) shots compile_options s =
     (case LocalEngine_super_run e [p] shots compile_options s of
        Some (Inr res, s') \<Rightarrow> run_one_at_a_time e ps shots compile_options s'
      | other \<Rightarrow> other)"

text \<open>The loop body and the loop of \<open>_run\<close> with the methods of \<open>LocalEngine\<close>.\<close>

abbreviation LocalEngine_run_unit ::
  "env \<Rightarrow> int \<Rightarrow> options \<Rightarrow> pid option \<Rightarrow> pid \<Rightarrow> 'z LocalEngine_scheme \<Rightarrow>
   ((error + pid) \<times> 'z LocalEngine_scheme) option" where
  "LocalEngine_run_unit e \<equiv>
     run_unit e LocalEngine_init_backend (\<lambda>prog k t. Some (LocalEngine_run_program e prog k t))"

abbreviation LocalEngine_run_units ::
  "env \<Rightarrow> int \<Rightarrow> options \<Rightarrow> pid option \<Rightarrow> pid list \<Rightarrow> 'z LocalEngine_scheme \<Rightarrow>
   ((error + unit) \<times> 'z LocalEngine_scheme) option" where
  "LocalEngine_run_units e \<equiv>
     run_units e LocalEngine_init_backend (\<lambda>prog k t. Some (LocalEngine_run_program e prog k t))"

text \<open>
  A fresh local engine over \<open>local_heap\<close>, and the same engine when the loop of \<open>_run\<close>
  has processed \<open>prog_A\<close> as its first unit.
\<close>

definition fresh_local :: LocalEngine where
  "fresh_local = LocalEngine_init ''fock'' no_options local_heap"

definition ran_A :: "int \<Rightarrow> LocalEngine" where
  "ran_A shots =
     fresh_local
       \<lparr>LocalEngine.backend := [BeginCircuit 2 no_options, Apply ''MeasureFock'' [0] shots],
        heap := (lock 0 local_heap)\<lparr>regval := (regval local_heap)(0 := measure_outcome shots)\<rparr>,
        run_progs := [0],
        samples := MapIter [measure_outcome shots, normalize_sample shots VNone]\<rparr>"

section \<open>Shape of the stored samples\<close>

lemma np_shape_VList_Some:
  assumes "np_shape (VList xs) = Some (r # d)" and "x \<in> set xs"
  shows "np_shape x = Some d" and "r = length xs"
proof -
  from assms(2) obtain y ys where xs: "xs = y # ys" by (cases xs) auto
  have all: "np_shape y = Some d \<and> list_all (\<lambda>t. t = Some d) (map np_shape ys) \<and> r = length xs"
    using assms(1) unfolding xs by (auto split: option.splits if_splits)
  then show "r = length xs" by simp
  from all assms(2) show "np_shape x = Some d"
    unfolding xs by (auto simp: list_all_iff)
qed

lemma np_shape_items_length:
  assumes "np_shape x = Some (t # ds)"
  shows "length (items x) = t"
proof (cases x)
  case (VList ys)
  with assms show ?thesis
    by (cases ys) (auto split: option.splits if_splits)
qed (use assms in auto)

lemma stack1_row_shape:
  assumes "\<forall>a\<in>set arrays. np_shape a = Some (t # ds)" and "arrays \<noteq> []" and "i < t"
  shows "np_shape (VList (map (\<lambda>a. items a ! i) arrays)) = Some (length arrays # ds)"
proof -
  have el: "np_shape (items a ! i) = Some ds" if "a \<in> set arrays" for a
  proof -
    from that assms(1) have sh: "np_shape a = Some (t # ds)" by simp
    then obtain ys where a: "a = VList ys" by (cases a) auto
    from sh a have "length ys = t" using np_shape_items_length[OF sh] by simp
    with assms(3) have "ys ! i \<in> set ys" by simp
    from np_shape_VList_Some(1)[OF sh[unfolded a] this] show ?thesis by (simp add: a)
  qed
  obtain b bs where arrays: "arrays = b # bs" using assms(2) by (cases arrays) auto
  have "map np_shape (map (\<lambda>a. items a ! i) arrays) = map (\<lambda>_. Some ds) arrays"
    using el by simp
  then show ?thesis
    by (simp add: arrays list_all_iff)
qed

lemma stack1_shape:
  assumes "np_shape (VList arrays) = Some (r # t # ds)" and "0 < t"
  shows "np_shape (stack1 arrays) = Some (t # r # ds)"
proof -
  have all: "\<forall>a\<in>set arrays. np_shape a = Some (t # ds)"
    using np_shape_VList_Some(1)[OF assms(1)] by blast
  have ne: "arrays \<noteq> []" using assms(1) by auto
  have r: "r = length arrays"
    using assms(1) ne by (cases arrays) (auto split: option.splits if_splits)
  have hd: "length (items (hd arrays)) = t"
    using all ne np_shape_items_length by (cases arrays) auto
  have rows: "map np_shape (map (\<lambda>i. VList (map (\<lambda>a. items a ! i) arrays)) [0..<t])
      = map (\<lambda>_. Some (r # ds)) [0..<t]"
    using stack1_row_shape[OF all ne] by (simp add: r)
  obtain k where t: "t = Suc k" using assms(2) by (cases t) auto
  show ?thesis
    unfolding stack1_def hd np_shape.simps rows
    by (simp add: t upt_conv_Cons list_all_iff del: upt_Suc)
qed

text \<open>
  C2 (as amended).  When the raw samples have more than one dimension, of shape
  \<open>r # t # ds\<close> (\<open>r\<close> registers, \<open>t\<close> trials), \<open>Result.__init__\<close> succeeds and
  stores the stacked array: it has \<open>t\<close> entries, one per trial, and entry \<open>i\<close> lists
  for every register \<open>j\<close> its value at trial \<open>i\<close>, so the register axis is the second
  axis and the layout is (trials, registers).  A collection of at most one dimension is
  stored unchanged.
\<close>

theorem Result_init_layout:
  "(np_shape smp = Some (r # t # ds) \<longrightarrow>
      (\<exists>res. Result_init smp = Inr res \<and> state res = None \<and>
         length (items (Result.samples res)) = t \<and>
         (\<forall>i<t. \<exists>row. items (Result.samples res) ! i = VList row \<and> length row = r \<and>
                (\<forall>j<r. row ! j = items (items smp ! j) ! i)) \<and>
         (0 < t \<longrightarrow> np_shape (Result.samples res) = Some (t # r # ds)))) \<and>
   (np_shape smp = Some d \<and> length d \<le> 1 \<longrightarrow>
      Result_init smp = Inr \<lparr>state = None, Result.samples = smp\<rparr>)"
proof (intro conjI impI)
  assume sh: "np_shape smp = Some (r # t # ds)"
  then obtain arrays where smp: "smp = VList arrays" by (cases smp) auto
  have ne: "arrays \<noteq> []" using sh smp by auto
  have r: "r = length arrays"
    using np_shape_items_length[OF sh] smp by simp
  have all: "\<forall>a\<in>set arrays. np_shape a = Some (t # ds)"
    using np_shape_VList_Some(1)[OF sh[unfolded smp]] by blast
  have hd: "length (items (hd arrays)) = t"
    using all ne np_shape_items_length by (cases arrays) auto
  have res: "Result_init smp = Inr \<lparr>state = None, Result.samples = stack1 arrays\<rparr>"
    using sh by (simp add: Result_init_def smp)
  have "0 < t \<longrightarrow> np_shape (stack1 arrays) = Some (t # r # ds)"
    using stack1_shape[OF sh[unfolded smp]] by simp
  then show "\<exists>res. Result_init smp = Inr res \<and> state res = None \<and>
         length (items (Result.samples res)) = t \<and>
         (\<forall>i<t. \<exists>row. items (Result.samples res) ! i = VList row \<and> length row = r \<and>
                (\<forall>j<r. row ! j = items (items smp ! j) ! i)) \<and>
         (0 < t \<longrightarrow> np_shape (Result.samples res) = Some (t # r # ds))"
    unfolding res by (simp add: stack1_def hd r smp)
next
  assume "np_shape smp = Some d \<and> length d \<le> 1"
  then show "Result_init smp = Inr \<lparr>state = None, Result.samples = smp\<rparr>"
    by (simp add: Result_init_def)
qed


theorem Result_init_layout_witness:
  "np_shape smp23 = Some [2, 3] \<and>
   Result_init smp23 = Inr \<lparr>state = None, Result.samples = VList [VList [VNum 1, VNum 4], VList [VNum 2, VNum 5], VList [VNum 3, VNum 6]]\<rparr> \<and>
   np_shape (VList [VNum 7, VNone]) = Some [2] \<and>
   Result_init (VList [VNum 7, VNone]) = Inr \<lparr>state = None, Result.samples = VList [VNum 7, VNone]\<rparr>"
  using Result_init_layout[of smp23 2 3 "[]" "[2]"] Result_init_layout[of "VList [VNum 7, VNone]" 0 0 "[]" "[2]"]
  by (simp add: smp23_def Result_init_def stack1_def upt_conv_Cons del: upt_Suc)

text \<open>
  The layout (registers, trials) that C2 states fails for two registers with three
  trials each: the stored array has shape \<open>[3, 2]\<close>.
\<close>

theorem Result_init_layout_counterexample:
  "np_shape smp23 = Some [2, 3] \<and>
   Result_init smp23 = Inr \<lparr>state = None, Result.samples = VList [VList [VNum 1, VNum 4], VList [VNum 2, VNum 5], VList [VNum 3, VNum 6]]\<rparr> \<and>
   np_shape (VList [VList [VNum 1, VNum 4], VList [VNum 2, VNum 5], VList [VNum 3, VNum 6]]) = Some [3, 2] \<and>
   np_shape (VList [VList [VNum 1, VNum 4], VList [VNum 2, VNum 5], VList [VNum 3, VNum 6]]) \<noteq> Some [2, 3]"
  by (simp add: smp23_def Result_init_def stack1_def upt_conv_Cons del: upt_Suc)

section \<open>The remote engine\<close>

lemma StarshipEngine_run_program_frame:
  assumes "StarshipEngine_run_program e nm p k s = Some (r, s')"
  shows "run_progs s' = run_progs s \<and> heap s' = heap s \<and> backend_name s' = backend_name s"
  using assms
  by (auto simp: StarshipEngine_run_program_def Let_def
           split: if_splits sum.splits option.splits wait_outcome.splits prod.splits)

lemma StarshipEngine_run_program_duplicate:
  "jobs s \<noteq> [] \<Longrightarrow> StarshipEngine_run_program e nm p k s = Some (Inl JobAlreadyQueued, s)"
  by (simp add: StarshipEngine_run_program_def Let_def)

lemma StarshipEngine_run_program_submitted:
  assumes "jobs s = []"
    and "create_job e (generate_job_content (backend_name s) nm k
           (get_blackbird_syntax e (progs (heap s) p))) = Inr job0"
    and "wait_loop job0 (poll e) = Some (out, job, n)"
  shows "StarshipEngine_run_program e nm p k s =
     (let content = generate_job_content (backend_name s) nm k (get_blackbird_syntax e (progs (heap s) p));
          s1 = s\<lparr>requests := requests s @ [Create content] @ replicate n ReloadJob, jobs := [job]\<rparr>
      in case out of
           Completed \<Rightarrow> Some (Inr (result job), s1\<lparr>requests := requests s1 @ [GetResult]\<rparr>)
         | Failed \<Rightarrow> Some (Inl JobFailed, s1)
         | Interrupted \<Rightarrow>
             (case job_id job of
                Some i \<Rightarrow> Some (Inr VNone, s1\<lparr>printed := printed s1 @ [''Job '' @ i @ '' is queued in the background.'']\<rparr>)
              | None \<Rightarrow> Some (Inl JobNotSent, s1)))"
  using assms by (simp add: StarshipEngine_run_program_def Let_def)

lemma StarshipEngine_run_hardware:
  assumes "backend_name s \<in> set HARDWARE_BACKENDS"
    and "compile e (heap s) p0 (backend_name s) Map.empty = Inr (p, h')"
  shows "StarshipEngine_run e (p0 # ps) shots name_opt s =
     (case StarshipEngine_run_program e (name_or_uuid e name_opt) p shots
             (s\<lparr>heap := lock p h', run_progs := run_progs s @ [p]\<rparr>) of
        None \<Rightarrow> None
      | Some (Inl err, s3) \<Rightarrow> Some (Inl err, s3)
      | Some (Inr smp, s3) \<Rightarrow> Some (Result_init smp, s3))"
  using assms by (simp add: StarshipEngine_run_def BaseEngine_run_hardware_def Let_def)

lemma wait_loop_Failed:
  "wait_loop job0 evs = Some (Failed, job, n) \<Longrightarrow> is_failed job \<and> Reload job \<in> set evs"
proof (induction evs arbitrary: job0 n)
  case Nil
  then show ?case by (simp split: if_splits)
next
  case (Cons ev evs)
  then show ?case
    by (auto split: if_splits poll_event.splits)
qed

lemma wait_loop_Interrupted:
  "wait_loop job0 evs = Some (Interrupted, job, n) \<Longrightarrow> Interrupt \<in> set evs \<and> \<not> is_complete job"
proof (induction evs arbitrary: job0 n)
  case Nil
  then show ?case by (simp split: if_splits)
next
  case (Cons ev evs)
  then show ?case
    by (auto split: if_splits poll_event.splits)
qed

lemma progs_clear_regrefs [simp]: "progs (clear_regrefs p h) = progs h"
  by (simp add: clear_regrefs_def)

lemma progs_fold_clear_regrefs [simp]: "progs (fold clear_regrefs ps h) = progs h"
  by (induction ps arbitrary: h) simp_all


text \<open>
  C10.  On a hardware backend the first program is compiled, locked and appended to
  \<open>run_progs\<close> before \<open>_run_program\<close> is entered: \<open>_run_program\<close> starts from the state
  \<open>s2\<close>, in which the unit is in the history and locked while the jobs and the requests
  sent to the service are still those of \<open>s\<close>.  Hence whenever the run fails, with the
  duplicate-submission error, the job-failure error or any other, the locked unit is in
  the run history afterwards.
\<close>

theorem remote_unit_in_history_before_submission:
  assumes hw: "backend_name s \<in> set HARDWARE_BACKENDS"
    and comp: "compile e (heap s) p0 (backend_name s) Map.empty = Inr (p, h')"
    and s2: "s2 = s\<lparr>heap := lock p h', run_progs := run_progs s @ [p]\<rparr>"
  shows "StarshipEngine_run e (p0 # ps) shots name_opt s =
           (case StarshipEngine_run_program e (name_or_uuid e name_opt) p shots s2 of
              None \<Rightarrow> None
            | Some (Inl err, s3) \<Rightarrow> Some (Inl err, s3)
            | Some (Inr smp, s3) \<Rightarrow> Some (Result_init smp, s3)) \<and>
         run_progs s2 = run_progs s @ [p] \<and> locked (progs (heap s2) p) \<and>
         jobs s2 = jobs s \<and> requests s2 = requests s \<and>
         (\<forall>err s'. StarshipEngine_run e (p0 # ps) shots name_opt s = Some (Inl err, s') \<longrightarrow>
            run_progs s' = run_progs s @ [p] \<and> locked (progs (heap s') p))"
proof -
  have eq: "StarshipEngine_run e (p0 # ps) shots name_opt s =
           (case StarshipEngine_run_program e (name_or_uuid e name_opt) p shots s2 of
              None \<Rightarrow> None
            | Some (Inl err, s3) \<Rightarrow> Some (Inl err, s3)
            | Some (Inr smp, s3) \<Rightarrow> Some (Result_init smp, s3))"
    unfolding s2 by (rule StarshipEngine_run_hardware[OF hw comp])
  have fail: "run_progs s' = run_progs s @ [p] \<and> locked (progs (heap s') p)"
    if run: "StarshipEngine_run e (p0 # ps) shots name_opt s = Some (Inl err, s')" for err s'
  proof -
    from run obtain r where rp:
      "StarshipEngine_run_program e (name_or_uuid e name_opt) p shots s2 = Some (r, s')"
      unfolding eq by (auto split: option.splits prod.splits sum.splits)
    from StarshipEngine_run_program_frame[OF rp] show ?thesis
      by (simp add: s2 lock_def)
  qed
  show ?thesis
    using eq fail by (simp add: s2 lock_def)
qed

text \<open>A job that fails at the first reload: the unit \<open>0\<close> is in the history, locked.\<close>

theorem remote_unit_in_history_before_submission_witness:
  "map_option (\<lambda>(r, s'). (r, run_progs s', locked (progs (heap s') 0)))
     (StarshipEngine_run (service_env job_queued [Reload job_failed]) [0] 1 None
        (StarshipEngine_init chip_heap))
   = Some (Inl JobFailed, [0], True)"
  using remote_unit_in_history_before_submission
    [of "StarshipEngine_init chip_heap" "service_env job_queued [Reload job_failed]" 0 0 chip_heap
        "(StarshipEngine_init chip_heap)\<lparr>heap := lock 0 chip_heap, run_progs := [0]\<rparr>" "[]" 1 None]
  by (simp add: StarshipEngine_init_def HARDWARE_BACKENDS_def service_env_def
        StarshipEngine_run_program_def job_queued_def job_failed_def lock_def chip_heap_def)

text \<open>
  C5 (as amended).  When the job's status becomes failed during polling, the run raises
  the submission/completion error, and afterwards the outstanding-job set still contains
  that job, as in the interrupted case; it is emptied by \<open>reset\<close>.
\<close>

theorem failed_job_stays_outstanding:
  assumes hw: "backend_name s \<in> set HARDWARE_BACKENDS"
    and comp: "compile e (heap s) p0 (backend_name s) Map.empty = Inr (p, h')"
    and none: "jobs s = []"
    and created: "create_job e (generate_job_content (backend_name s) (name_or_uuid e name_opt) shots
                     (get_blackbird_syntax e (progs (lock p h') p))) = Inr job0"
    and failed: "wait_loop job0 (poll e) = Some (Failed, job, n)"
  shows "\<exists>s'. StarshipEngine_run e (p0 # ps) shots name_opt s = Some (Inl JobFailed, s') \<and>
              jobs s' = [job] \<and> is_failed job \<and> jobs (StarshipEngine_reset opts s') = []"
proof -
  let ?s2 = "s\<lparr>heap := lock p h', run_progs := run_progs s @ [p]\<rparr>"
  have rp: "StarshipEngine_run_program e (name_or_uuid e name_opt) p shots ?s2 =
      Some (Inl JobFailed,
        ?s2\<lparr>requests := requests ?s2 @ [Create (generate_job_content (backend_name ?s2)
                 (name_or_uuid e name_opt) shots (get_blackbird_syntax e (progs (heap ?s2) p)))]
                 @ replicate n ReloadJob, jobs := [job]\<rparr>)"
    using StarshipEngine_run_program_submitted[of ?s2 e "name_or_uuid e name_opt" shots p job0 Failed job n]
      none created failed by (simp add: Let_def)
  show ?thesis
    unfolding StarshipEngine_run_hardware[OF hw comp] rp
    using wait_loop_Failed[OF failed]
    by (simp add: StarshipEngine_reset_def)
qed

text \<open>A job that is queued at the first reload and failed at the second.\<close>

theorem failed_job_stays_outstanding_witness:
  "map_option (\<lambda>(r, s'). (r, jobs s', jobs (StarshipEngine_reset None s')))
     (StarshipEngine_run (service_env job_queued [Reload job_queued, Reload job_failed]) [0] 1 None
        (StarshipEngine_init chip_heap))
   = Some (Inl JobFailed, [job_failed], [])"
  using failed_job_stays_outstanding
    [of "StarshipEngine_init chip_heap" "service_env job_queued [Reload job_queued, Reload job_failed]"
        0 0 chip_heap None 1 job_queued job_failed 2 "[]" None]
  by (auto simp: StarshipEngine_init_def HARDWARE_BACKENDS_def service_env_def
        job_queued_def job_failed_def)

text \<open>
  C5 as stated asks for an empty outstanding-job set after the failure.  For a job that
  is queued at the first reload and failed at the second, the run ends in the state
  below, whose job set holds the failed job.
\<close>

theorem failed_job_outstanding_set_counterexample:
  "StarshipEngine_run (service_env job_queued [Reload job_queued, Reload job_failed]) [0] 1 None
        (StarshipEngine_init chip_heap)
   = Some (Inl JobFailed,
        (StarshipEngine_init chip_heap)
          \<lparr>run_progs := [0], heap := lock 0 chip_heap, jobs := [job_failed],
           requests := [Create (generate_job_content ''chip0'' ''job'' 1 ''MeasureFock() | [0]''),
                        ReloadJob, ReloadJob]\<rparr>)
   \<and> jobs ((StarshipEngine_init chip_heap)
          \<lparr>run_progs := [0], heap := lock 0 chip_heap, jobs := [job_failed],
           requests := [Create (generate_job_content ''chip0'' ''job'' 1 ''MeasureFock() | [0]''),
                        ReloadJob, ReloadJob]\<rparr>) \<noteq> []"
  by (simp add: StarshipEngine_run_def BaseEngine_run_hardware_def StarshipEngine_run_program_def
        StarshipEngine_init_def HARDWARE_BACKENDS_def service_env_def name_or_uuid_def
        job_queued_def job_failed_def Let_def)

text \<open>
  C6.  With a job outstanding, a run on the hardware backend fails with the
  duplicate-submission error, and the requests sent to the service and the job set are
  what they were: no job is created or submitted.  After \<open>reset\<close> the job set is empty,
  and a run whose job the service accepts and completes returns that job's result.
\<close>

theorem duplicate_submission_rejected:
  assumes hw: "backend_name s \<in> set HARDWARE_BACKENDS"
    and comp: "compile e (heap s) p0 (backend_name s) Map.empty = Inr (p, h')"
    and outstanding: "jobs s \<noteq> []"
    and s1: "s1 = s\<lparr>heap := lock p h', run_progs := run_progs s @ [p]\<rparr>"
    and t: "t = StarshipEngine_reset opts s1"
  shows "StarshipEngine_run e (p0 # ps) shots name_opt s = Some (Inl JobAlreadyQueued, s1) \<and>
         requests s1 = requests s \<and> jobs s1 = jobs s \<and>
         jobs t = [] \<and> requests t = requests s \<and>
         (compile e (heap t) q0 (backend_name t) Map.empty = Inr (q, h2) \<and>
          create_job e (generate_job_content (backend_name t) (name_or_uuid e name_opt2) shots2
                     (get_blackbird_syntax e (progs (lock q h2) q))) = Inr job0 \<and>
          wait_loop job0 (poll e) = Some (Completed, job, n) \<longrightarrow>
          (\<exists>t'. StarshipEngine_run e (q0 # qs) shots2 name_opt2 t = Some (Result_init (result job), t') \<and>
                jobs t' = [job] \<and>
                requests t' = requests s @
                  [Create (generate_job_content (backend_name t) (name_or_uuid e name_opt2) shots2
                     (get_blackbird_syntax e (progs (lock q h2) q)))] @ replicate n ReloadJob @ [GetResult]))"
proof -
  have dup: "StarshipEngine_run e (p0 # ps) shots name_opt s = Some (Inl JobAlreadyQueued, s1)"
    unfolding StarshipEngine_run_hardware[OF hw comp] s1
    using outstanding by (simp add: StarshipEngine_run_program_duplicate)
  have bt: "backend_name t = backend_name s" and jt: "jobs t = []" and rt: "requests t = requests s"
    by (simp_all add: t s1 StarshipEngine_reset_def BaseEngine_reset_def Let_def)
  have again: "\<exists>t'. StarshipEngine_run e (q0 # qs) shots2 name_opt2 t = Some (Result_init (result job), t') \<and>
                jobs t' = [job] \<and>
                requests t' = requests s @
                  [Create (generate_job_content (backend_name t) (name_or_uuid e name_opt2) shots2
                     (get_blackbird_syntax e (progs (lock q h2) q)))] @ replicate n ReloadJob @ [GetResult]"
    if comp2: "compile e (heap t) q0 (backend_name t) Map.empty = Inr (q, h2)"
      and created: "create_job e (generate_job_content (backend_name t) (name_or_uuid e name_opt2) shots2
                     (get_blackbird_syntax e (progs (lock q h2) q))) = Inr job0"
      and completed: "wait_loop job0 (poll e) = Some (Completed, job, n)"
  proof -
    let ?t2 = "t\<lparr>heap := lock q h2, run_progs := run_progs t @ [q]\<rparr>"
    have hwt: "backend_name t \<in> set HARDWARE_BACKENDS" using hw bt by simp
    show ?thesis
      unfolding StarshipEngine_run_hardware[OF hwt comp2]
      using StarshipEngine_run_program_submitted[of ?t2 e "name_or_uuid e name_opt2" shots2 q job0 Completed job n]
        jt rt created completed
      by (simp add: Let_def)
  qed
  show ?thesis
    using dup jt rt again by (simp add: s1)
qed

lemma StarshipEngine_reset_fields:
  "backend_name (StarshipEngine_reset opts s) = backend_name s"
  "jobs (StarshipEngine_reset opts s) = []"
  "requests (StarshipEngine_reset opts s) = requests s"
  "printed (StarshipEngine_reset opts s) = printed s"
  "run_progs (StarshipEngine_reset opts s) = []"
  "samples (StarshipEngine_reset opts s) = SNone"
  by (simp_all add: StarshipEngine_reset_def BaseEngine_reset_def Let_def)

lemma StarshipEngine_init_fields:
  "backend_name (StarshipEngine_init h) = ''chip0''"
  "backend_options (StarshipEngine_init h) = Map.empty"
  "run_progs (StarshipEngine_init h) = []"
  "samples (StarshipEngine_init h) = SNone"
  "heap (StarshipEngine_init h) = h"
  "jobs (StarshipEngine_init h) = []"
  "requests (StarshipEngine_init h) = []"
  "printed (StarshipEngine_init h) = []"
  by (simp_all add: StarshipEngine_init_def)

text \<open>An engine with a queued job, and a service that completes jobs at once.\<close>

theorem duplicate_submission_rejected_witness:
  "StarshipEngine_run (service_env job_done []) [0] 1 None
       ((StarshipEngine_init chip_heap)\<lparr>jobs := [job_queued]\<rparr>)
     = Some (Inl JobAlreadyQueued,
         (StarshipEngine_init chip_heap)\<lparr>jobs := [job_queued], heap := lock 0 chip_heap, run_progs := [0]\<rparr>) \<and>
   (\<exists>t'. StarshipEngine_run (service_env job_done []) [0] 1 None
           (StarshipEngine_reset None
              ((StarshipEngine_init chip_heap)\<lparr>jobs := [job_queued], heap := lock 0 chip_heap, run_progs := [0]\<rparr>))
         = Some (Inr \<lparr>state = None, Result.samples = VList [VNum 1, VNum 0]\<rparr>, t') \<and>
         jobs t' = [job_done] \<and>
         requests t' = [Create (generate_job_content ''chip0'' ''job'' 1 ''MeasureFock() | [0]''), GetResult])"
proof -
  let ?e = "service_env job_done []"
  let ?s = "(StarshipEngine_init chip_heap)\<lparr>jobs := [job_queued]\<rparr>"
  let ?s1 = "?s\<lparr>heap := lock 0 chip_heap, run_progs := run_progs ?s @ [0]\<rparr>"
  let ?t = "StarshipEngine_reset None ?s1"
  have hw: "backend_name ?s \<in> set HARDWARE_BACKENDS"
    by (simp add: StarshipEngine_init_def HARDWARE_BACKENDS_def)
  have comp: "compile ?e (heap ?s) 0 (backend_name ?s) Map.empty = Inr (0, chip_heap)"
    by (simp add: service_env_def StarshipEngine_init_def)
  have out: "jobs ?s \<noteq> []" by simp
  have ht: "heap ?t = fold clear_regrefs [0] (lock 0 chip_heap)" and bt: "backend_name ?t = ''chip0''"
    by (simp_all add: StarshipEngine_reset_def BaseEngine_reset_def StarshipEngine_init_def)
  have comp2: "compile ?e (heap ?t) 0 (backend_name ?t) Map.empty = Inr (0, heap ?t)"
    by (simp add: service_env_def)
  have created: "create_job ?e (generate_job_content (backend_name ?t) (name_or_uuid ?e None) 1
                     (get_blackbird_syntax ?e (progs (lock 0 (heap ?t)) 0))) = Inr job_done"
    by (simp add: service_env_def)
  have completed: "wait_loop job_done (poll ?e) = Some (Completed, job_done, 0)"
    by (simp add: service_env_def job_done_def)
  have res: "Result_init (result job_done) = Inr \<lparr>state = None, Result.samples = VList [VNum 1, VNum 0]\<rparr>"
    by (simp add: Result_init_def job_done_def)
  have nm: "name_or_uuid ?e None = ''job''" "get_blackbird_syntax ?e = (\<lambda>p. ''MeasureFock() | [0]'')"
    by (simp_all add: name_or_uuid_def service_env_def)
  have rp: "run_progs ?s = []" and rq: "requests ?s = []"
    by (simp_all add: StarshipEngine_init_def)
  from duplicate_submission_rejected[OF hw comp out refl refl, of "[]" 1 None None 0 0 "heap ?t" None 1 job_done job_done 0 "[]"]
    comp2 created completed
  show ?thesis
    by (auto simp: res nm StarshipEngine_reset_fields StarshipEngine_init_fields)
qed

text \<open>
  C7.  When the wait is interrupted: if the job has an identifier, the run does not
  raise, the job stays in the job set and a line reporting the identifier is printed;
  if it has none, the run raises the error "Job could not be sent to server".
\<close>

theorem interrupted_wait:
  assumes hw: "backend_name s \<in> set HARDWARE_BACKENDS"
    and comp: "compile e (heap s) p0 (backend_name s) Map.empty = Inr (p, h')"
    and none: "jobs s = []"
    and created: "create_job e (generate_job_content (backend_name s) (name_or_uuid e name_opt) shots
                     (get_blackbird_syntax e (progs (lock p h') p))) = Inr job0"
    and interrupted: "wait_loop job0 (poll e) = Some (Interrupted, job, n)"
  shows "(\<forall>i. job_id job = Some i \<longrightarrow>
            (\<exists>s'. StarshipEngine_run e (p0 # ps) shots name_opt s =
                     Some (Inr \<lparr>state = None, Result.samples = VNone\<rparr>, s') \<and>
                   jobs s' = [job] \<and>
                   printed s' = printed s @ [''Job '' @ i @ '' is queued in the background.''])) \<and>
         (job_id job = None \<longrightarrow>
            (\<exists>s'. StarshipEngine_run e (p0 # ps) shots name_opt s = Some (Inl JobNotSent, s') \<and>
                   jobs s' = [job] \<and> printed s' = printed s))"
proof -
  let ?s2 = "s\<lparr>heap := lock p h', run_progs := run_progs s @ [p]\<rparr>"
  have res: "Result_init VNone = Inr \<lparr>state = None, Result.samples = VNone\<rparr>"
    by (simp add: Result_init_def)
  show ?thesis
    unfolding StarshipEngine_run_hardware[OF hw comp]
    using StarshipEngine_run_program_submitted[of ?s2 e "name_or_uuid e name_opt" shots p job0 Interrupted job n]
      none created interrupted
    by (auto simp: Let_def res)
qed

text \<open>
  An interrupt after one reload of a job with the identifier \<open>7\<close>, and an interrupt of
  a job that never got an identifier.
\<close>

theorem interrupted_wait_witness:
  "(\<exists>s'. StarshipEngine_run (service_env job_queued [Reload job_queued, Interrupt]) [0] 1 None
             (StarshipEngine_init chip_heap)
           = Some (Inr \<lparr>state = None, Result.samples = VNone\<rparr>, s') \<and>
          jobs s' = [job_queued] \<and> printed s' = [''Job 7 is queued in the background.'']) \<and>
   (\<exists>s'. StarshipEngine_run (service_env job_unsent [Interrupt]) [0] 1 None
             (StarshipEngine_init chip_heap)
           = Some (Inl JobNotSent, s') \<and> jobs s' = [job_unsent])"
proof -
  let ?s = "StarshipEngine_init chip_heap"
  let ?e1 = "service_env job_queued [Reload job_queued, Interrupt]"
  let ?e2 = "service_env job_unsent [Interrupt]"
  have hw: "backend_name ?s \<in> set HARDWARE_BACKENDS"
    by (simp add: StarshipEngine_init_def HARDWARE_BACKENDS_def)
  have none: "jobs ?s = []" by (simp add: StarshipEngine_init_def)
  have comp1: "compile ?e1 (heap ?s) 0 (backend_name ?s) Map.empty = Inr (0, chip_heap)"
    and comp2: "compile ?e2 (heap ?s) 0 (backend_name ?s) Map.empty = Inr (0, chip_heap)"
    by (simp_all add: service_env_def StarshipEngine_init_def)
  have cr1: "create_job ?e1 (generate_job_content (backend_name ?s) (name_or_uuid ?e1 None) 1
                     (get_blackbird_syntax ?e1 (progs (lock 0 chip_heap) 0))) = Inr job_queued"
    and cr2: "create_job ?e2 (generate_job_content (backend_name ?s) (name_or_uuid ?e2 None) 1
                     (get_blackbird_syntax ?e2 (progs (lock 0 chip_heap) 0))) = Inr job_unsent"
    by (simp_all add: service_env_def)
  have w1: "wait_loop job_queued (poll ?e1) = Some (Interrupted, job_queued, 1)"
    and w2: "wait_loop job_unsent (poll ?e2) = Some (Interrupted, job_unsent, 0)"
    by (simp_all add: service_env_def job_queued_def job_unsent_def)
  have id1: "job_id job_queued = Some ''7''" and id2: "job_id job_unsent = None"
    by (simp_all add: job_queued_def job_unsent_def)
  have pr: "printed ?s = []" by (simp add: StarshipEngine_init_def)
  from interrupted_wait[OF hw comp1 none cr1 w1, of "[]"] id1
       interrupted_wait[OF hw comp2 none cr2 w2, of "[]"] id2
  show ?thesis unfolding pr by auto
qed

section \<open>Reset\<close>

lemma fold_clear_val:
  "fold (\<lambda>kr rv. rv(snd kr := VNone)) rr rv r = (if r \<in> snd ` set rr then VNone else rv r)"
  by (induction rr arbitrary: rv) auto

lemma regval_clear_regrefs:
  "regval (clear_regrefs p h) r = (if r \<in> snd ` set (reg_refs (progs h p)) then VNone else regval h r)"
  by (simp add: clear_regrefs_def fold_clear_val)

lemma regval_fold_clear_regrefs:
  "regval (fold clear_regrefs ps h) r =
     (if \<exists>p\<in>set ps. r \<in> snd ` set (reg_refs (progs h p)) then VNone else regval h r)"
proof (induction ps arbitrary: h)
  case Nil
  then show ?case by simp
next
  case (Cons p ps)
  show ?case
    by (simp add: Cons.IH regval_clear_regrefs)
qed

lemma BaseEngine_reset_post:
  "run_progs (BaseEngine_reset opts s) = []"
  "samples (BaseEngine_reset opts s) = SNone"
  "progs (heap (BaseEngine_reset opts s)) = progs (heap s)"
  "backend_options (BaseEngine_reset opts s) = backend_options s ++ opts"
  "backend_name (BaseEngine_reset opts s) = backend_name s"
  "regval (heap (BaseEngine_reset opts s)) r =
     (if \<exists>p\<in>set (run_progs s). r \<in> snd ` set (reg_refs (progs (heap s) p)) then VNone
      else regval (heap s) r)"
  by (simp_all add: BaseEngine_reset_def regval_fold_clear_regrefs)

lemma BaseEngine_reset_more:
  "LocalEngine.backend (BaseEngine_reset opts s) = LocalEngine.backend s"
  "jobs (BaseEngine_reset opts u) = jobs u"
  "requests (BaseEngine_reset opts u) = requests u"
  "printed (BaseEngine_reset opts u) = printed u"
  by (simp_all add: BaseEngine_reset_def)

text \<open>
  C8 (as amended).  After \<open>LocalEngine.reset\<close> and after \<open>StarshipEngine.reset\<close> the
  run history is empty, the samples are \<open>None\<close>, every register reference of every
  program that was in the history has the value \<open>None\<close>, and no program object is changed:
  names, register structure and command lists are what they were.  The options of the
  caller override the stored ones; the local engine then drops the key \<open>batch_size\<close> and
  hands the options to \<open>backend.reset\<close>, the remote engine empties its job set.
\<close>

theorem reset_contract:
  fixes s :: "'z LocalEngine_scheme" and u :: "'y StarshipEngine_scheme"
  assumes s': "s' = LocalEngine_reset arg s" and u': "u' = StarshipEngine_reset arg u"
    and opts: "opts = (case arg of None \<Rightarrow> Map.empty | Some d \<Rightarrow> d)"
  shows "run_progs s' = [] \<and> samples s' = SNone \<and>
         (\<forall>p\<in>set (run_progs s). \<forall>kr\<in>set (reg_refs (progs (heap s) p)). regval (heap s') (snd kr) = VNone) \<and>
         progs (heap s') = progs (heap s) \<and>
         backend_options s' = (backend_options s ++ opts)(''batch_size'' := None) \<and>
         LocalEngine.backend s' = LocalEngine.backend s @ [Reset (backend_options s')] \<and>
         run_progs u' = [] \<and> samples u' = SNone \<and>
         (\<forall>p\<in>set (run_progs u). \<forall>kr\<in>set (reg_refs (progs (heap u) p)). regval (heap u') (snd kr) = VNone) \<and>
         progs (heap u') = progs (heap u) \<and>
         backend_options u' = backend_options u ++ opts \<and>
         jobs u' = []"
proof -
  have "run_progs s' = []" "samples s' = SNone" "progs (heap s') = progs (heap s)"
    "backend_options s' = (backend_options s ++ opts)(''batch_size'' := None)"
    "LocalEngine.backend s' = LocalEngine.backend s @ [Reset (backend_options s')]"
    by (simp_all add: s' opts LocalEngine_reset_def Let_def BaseEngine_reset_post(1-4) BaseEngine_reset_more)
  moreover have "regval (heap s') r = regval (heap (BaseEngine_reset opts s)) r" for r
    by (simp add: s' opts LocalEngine_reset_def Let_def)
  then have "\<forall>p\<in>set (run_progs s). \<forall>kr\<in>set (reg_refs (progs (heap s) p)). regval (heap s') (snd kr) = VNone"
    by (auto simp: BaseEngine_reset_post(6))
  moreover have "run_progs u' = []" "samples u' = SNone" "progs (heap u') = progs (heap u)"
    "backend_options u' = backend_options u ++ opts" "jobs u' = []"
    by (simp_all add: u' opts StarshipEngine_reset_def Let_def BaseEngine_reset_post(1-4))
  moreover have "regval (heap u') r = regval (heap (BaseEngine_reset opts u)) r" for r
    by (simp add: u' opts StarshipEngine_reset_def Let_def)
  then have "\<forall>p\<in>set (run_progs u). \<forall>kr\<in>set (reg_refs (progs (heap u) p)). regval (heap u') (snd kr) = VNone"
    by (auto simp: BaseEngine_reset_post(6))
  ultimately show ?thesis by simp
qed


text \<open>
  A local engine that has run \<open>prog_A\<close> and measured 3 in register 0, and a remote engine
  with one program in its history and a queued job.
\<close>

theorem reset_contract_witness:
  "regval (heap ((LocalEngine_init ''fock'' no_options local_heap)
            \<lparr>run_progs := [0], heap := local_heap\<lparr>regval := (regval local_heap)(0 := VNum 3)\<rparr>\<rparr>)) 0 = VNum 3 \<and>
   regval (heap (LocalEngine_reset (Some batch_options)
      ((LocalEngine_init ''fock'' no_options local_heap)
         \<lparr>run_progs := [0], heap := local_heap\<lparr>regval := (regval local_heap)(0 := VNum 3)\<rparr>\<rparr>))) 0 = VNone \<and>
   backend_options (LocalEngine_reset (Some batch_options)
      ((LocalEngine_init ''fock'' no_options local_heap)
         \<lparr>run_progs := [0], heap := local_heap\<lparr>regval := (regval local_heap)(0 := VNum 3)\<rparr>\<rparr>)) ''cutoff_dim''
     = Some (VNum 5) \<and>
   jobs (StarshipEngine_reset (Some batch_options) ((StarshipEngine_init chip_heap)\<lparr>run_progs := [0], jobs := [job_queued]\<rparr>)) = [] \<and>
   regval (heap (StarshipEngine_reset (Some batch_options) ((StarshipEngine_init chip_heap)\<lparr>run_progs := [0], jobs := [job_queued]\<rparr>))) 0 = VNone"
proof -
  let ?s = "(LocalEngine_init ''fock'' no_options local_heap)
         \<lparr>run_progs := [0], heap := local_heap\<lparr>regval := (regval local_heap)(0 := VNum 3)\<rparr>\<rparr>"
  let ?u = "(StarshipEngine_init chip_heap)\<lparr>run_progs := [0], jobs := [job_queued]\<rparr>"
  have rs: "backend_options ?s = no_options" "regval (heap ?s) 0 = VNum 3"
    by (simp_all add: LocalEngine_init_def)
  note R = reset_contract[OF refl refl refl, of "Some batch_options" ?s ?u]
  from R have "\<forall>p\<in>set (run_progs ?s). \<forall>kr\<in>set (reg_refs (progs (heap ?s) p)).
      regval (heap (LocalEngine_reset (Some batch_options) ?s)) (snd kr) = VNone"
    by blast
  then have c1: "regval (heap (LocalEngine_reset (Some batch_options) ?s)) 0 = VNone"
    by (simp add: local_heap_def prog_A_def)
  from R have "backend_options (LocalEngine_reset (Some batch_options) ?s)
      = (backend_options ?s ++ batch_options)(''batch_size'' := None)"
    by simp
  then have c2: "backend_options (LocalEngine_reset (Some batch_options) ?s) ''cutoff_dim'' = Some (VNum 5)"
    unfolding rs by (simp add: batch_options_def no_options_def)
  from R have c3: "jobs (StarshipEngine_reset (Some batch_options) ?u) = []"
    by blast
  from R have "\<forall>p\<in>set (run_progs ?u). \<forall>kr\<in>set (reg_refs (progs (heap ?u) p)).
      regval (heap (StarshipEngine_reset (Some batch_options) ?u)) (snd kr) = VNone"
    by blast
  then have c4: "regval (heap (StarshipEngine_reset (Some batch_options) ?u)) 0 = VNone"
    by (simp add: StarshipEngine_init_def chip_heap_def chip_prog_def)
  from rs(2) c1 c2 c3 c4 show ?thesis by simp
qed

text \<open>
  C8 as stated has the options of the caller merged into the stored ones.  The option
  \<open>batch_size\<close> given to \<open>LocalEngine.reset\<close> is not among the stored options afterwards.
\<close>

theorem reset_options_counterexample:
  "batch_options ''batch_size'' = Some (VNum 2) \<and>
   backend_options (LocalEngine_reset (Some batch_options)
      (LocalEngine_init ''fock'' no_options local_heap)) ''batch_size'' = None"
  by (simp add: batch_options_def LocalEngine_reset_def BaseEngine_reset_def Let_def
        LocalEngine_init_def)

section \<open>The local engine\<close>

lemma begin_circuits_append [simp]:
  "begin_circuits (xs @ ys) = begin_circuits xs @ begin_circuits ys"
  by (induction xs rule: begin_circuits.induct) simp_all

lemma apply_commands_frame:
  assumes "apply_commands e shots cmds applied s = (r, s')"
  shows "run_progs s' = run_progs s \<and> samples s' = samples s \<and>
         backend_name s' = backend_name s \<and> backend_options s' = backend_options s \<and>
         progs (heap s') = progs (heap s) \<and>
         begin_circuits (LocalEngine.backend s') = begin_circuits (LocalEngine.backend s)"
  using assms
proof (induction cmds arbitrary: applied s)
  case Nil
  then show ?case by simp
next
  case (Cons cmd cmds)
  show ?case
  proof (cases "apply_op e (LocalEngine.backend s) (regval (heap s)) (op cmd) (reg cmd) shots")
    case (Inl err)
    with Cons.prems show ?thesis by (auto simp: Let_def)
  next
    case (Inr rv)
    with Cons.prems have
      "apply_commands e shots cmds (applied @ [cmd])
         (s\<lparr>LocalEngine.backend := LocalEngine.backend s @ [Apply (op cmd) (reg cmd) shots],
            heap := (heap s)\<lparr>regval := rv\<rparr>\<rparr>) = (r, s')"
      by (simp add: Let_def)
    from Cons.IH[OF this] show ?thesis by simp
  qed
qed

lemma LocalEngine_run_program_frame:
  assumes "LocalEngine_run_program e p shots s = (r, s')"
  shows "run_progs s' = run_progs s \<and> samples s' = samples s \<and>
         backend_name s' = backend_name s \<and> backend_options s' = backend_options s \<and>
         progs (heap s') = progs (heap s) \<and>
         begin_circuits (LocalEngine.backend s') = begin_circuits (LocalEngine.backend s)"
  using assms unfolding LocalEngine_run_program_def by (rule apply_commands_frame)

text \<open>The loop body: the three ways in which \<open>run_unit\<close> starts.\<close>

lemma run_unit_mismatch:
  assumes "\<not> can_follow e (heap s) p q"
  shows "run_unit e ib rp shots co (Some q) p s =
           Some (Inl (RegisterMismatch (length (run_progs s)) (name (progs (heap s) p))), s)"
  using assms by (simp add: run_unit_def)


lemma copy_samples_result:
  "\<exists>r vs' rv'. copy_samples rr k vs rv = (r, vs', rv')"
  by (cases "copy_samples rr k vs rv") auto

lemma local_run_unit_total:
  "\<exists>r s'. LocalEngine_run_unit e shots co prev p s = Some (r, s')"
  by (auto simp: run_unit_def Let_def
           split: option.splits if_splits sum.splits prod.splits samples_attr.splits)

lemma local_run_unit_effects:
  assumes "LocalEngine_run_unit e shots co prev p s = Some (r, s')"
  shows "begin_circuits (LocalEngine.backend s') =
           begin_circuits (LocalEngine.backend s) @
             (case prev of None \<Rightarrow> [init_num_subsystems (progs (heap s) p)] | Some q \<Rightarrow> [])"
    and "run_progs s' = run_progs s @ (case r of Inl err \<Rightarrow> [] | Inr p' \<Rightarrow> [p'])"
  using assms
  by (auto simp: run_unit_def Let_def LocalEngine_init_backend_def
           split: option.splits if_splits sum.splits prod.splits samples_attr.splits
           dest!: LocalEngine_run_program_frame)

lemma local_run_units_total:
  "\<exists>r s'. LocalEngine_run_units e shots co prev ps s = Some (r, s')"
proof (induction ps arbitrary: prev s)
  case Nil
  then show ?case by simp
next
  case (Cons p ps)
  obtain r1 s1 where u: "LocalEngine_run_unit e shots co prev p s = Some (r1, s1)"
    using local_run_unit_total by blast
  show ?case
  proof (cases r1)
    case (Inl err)
    with u show ?thesis by simp
  next
    case (Inr p')
    with u Cons.IH[of "Some p'" s1] show ?thesis by simp
  qed
qed

lemma local_run_units_effects:
  assumes "LocalEngine_run_units e shots co prev ps s = Some (r, s')"
    and "prev = None \<longleftrightarrow> run_progs s = []"
  shows "begin_circuits (LocalEngine.backend s') =
           begin_circuits (LocalEngine.backend s) @
             (if run_progs s = [] \<and> ps \<noteq> [] then [init_num_subsystems (progs (heap s) (hd ps))] else [])"
  using assms
proof (induction ps arbitrary: prev s)
  case Nil
  then show ?case by simp
next
  case (Cons p ps)
  obtain r1 s1 where u: "LocalEngine_run_unit e shots co prev p s = Some (r1, s1)"
    using local_run_unit_total by blast
  note eff = local_run_unit_effects[OF u]
  show ?case
  proof (cases r1)
    case (Inl err)
    with u Cons.prems have "s' = s1" by simp
    with eff(1) Cons.prems(2) show ?thesis by (cases prev) auto
  next
    case (Inr p')
    with u Cons.prems have rest: "LocalEngine_run_units e shots co (Some p') ps s1 = Some (r, s')"
      by simp
    have ne: "run_progs s1 \<noteq> []" using eff(2) Inr by simp
    from Cons.IH[OF rest] ne
    have "begin_circuits (LocalEngine.backend s') = begin_circuits (LocalEngine.backend s1)"
      by simp
    with eff(1) Cons.prems(2) show ?thesis by (cases prev) auto
  qed
qed


lemma LocalEngine_super_run_units:
  "LocalEngine_super_run e program shots co s =
     (case LocalEngine_run_units e shots co
             (if run_progs s \<noteq> [] then Some (last (run_progs s)) else None) program s of
        None \<Rightarrow> None
      | Some (Inl err, s') \<Rightarrow> Some (Inl err, s')
      | Some (Inr u, s') \<Rightarrow>
          (case samples s' of
             SNone \<Rightarrow> Some (Inl TypeError, s')
           | MapIter vs \<Rightarrow> Some (Result_init (VList vs), s'\<lparr>samples := MapIter []\<rparr>)))"
  by (simp add: LocalEngine_super_run_def BaseEngine_run_local_def Let_def)

lemma LocalEngine_run_cases:
  assumes "LocalEngine_run_units e shots co
             (if run_progs s \<noteq> [] then Some (last (run_progs s)) else None) program s = Some (r, s1)"
  shows "\<exists>r' s'. LocalEngine_run e program shots co modes so s = Some (r', s') \<and>
           begin_circuits (LocalEngine.backend s') = begin_circuits (LocalEngine.backend s1) \<and>
           (\<forall>err. r = Inl err \<longrightarrow> r' = Inl err \<and> s' = s1)"
  using assms
  by (auto simp: LocalEngine_run_def LocalEngine_super_run_units Let_def
           split: sum.splits samples_attr.splits)

text \<open>
  C9.  Every call of \<open>LocalEngine.run\<close> returns, and the backend receives one
  \<open>begin_circuit\<close> call, with the register count of the first program, when the run
  history is empty at the start of the call and there is a program to run; otherwise it
  receives none.  For a single unit of the loop: the unit initialises the backend exactly
  when the history is empty as it is processed, and a unit that has run leaves the
  history non-empty, so no later unit initialises the backend again.
\<close>

theorem backend_initialised_once:
  "(\<exists>r s'. LocalEngine_run e program shots co modes so s = Some (r, s') \<and>
       begin_circuits (LocalEngine.backend s') =
         begin_circuits (LocalEngine.backend s) @
           (if run_progs s = [] \<and> program \<noteq> []
            then [init_num_subsystems (progs (heap s) (hd program))] else [])) \<and>
   ((prev = None \<longleftrightarrow> run_progs s = []) \<and> LocalEngine_run_unit e shots co prev p s = Some (r1, s1) \<longrightarrow>
       begin_circuits (LocalEngine.backend s1) =
         begin_circuits (LocalEngine.backend s) @
           (if run_progs s = [] then [init_num_subsystems (progs (heap s) p)] else []) \<and>
       (\<forall>p'. r1 = Inr p' \<longrightarrow> run_progs s1 \<noteq> []))"
proof (intro conjI impI)
  let ?prev = "if run_progs s \<noteq> [] then Some (last (run_progs s)) else None"
  obtain r0 s0 where u: "LocalEngine_run_units e shots co ?prev program s = Some (r0, s0)"
    using local_run_units_total by blast
  have "?prev = None \<longleftrightarrow> run_progs s = []" by simp
  from local_run_units_effects[OF u this] LocalEngine_run_cases[OF u, of modes so]
  show "\<exists>r s'. LocalEngine_run e program shots co modes so s = Some (r, s') \<and>
       begin_circuits (LocalEngine.backend s') =
         begin_circuits (LocalEngine.backend s) @
           (if run_progs s = [] \<and> program \<noteq> []
            then [init_num_subsystems (progs (heap s) (hd program))] else [])"
    by auto
next
  assume a: "(prev = None \<longleftrightarrow> run_progs s = []) \<and> LocalEngine_run_unit e shots co prev p s = Some (r1, s1)"
  then have u: "LocalEngine_run_unit e shots co prev p s = Some (r1, s1)" by simp
  from local_run_unit_effects[OF u] a
  show "begin_circuits (LocalEngine.backend s1) =
         begin_circuits (LocalEngine.backend s) @
           (if run_progs s = [] then [init_num_subsystems (progs (heap s) p)] else [])"
    by (cases prev) auto
  from local_run_unit_effects(2)[OF u]
  show "\<forall>p'. r1 = Inr p' \<longrightarrow> run_progs s1 \<noteq> []" by auto
qed

text \<open>
  C3.  When the first unit of a run has executed successfully and the next unit cannot
  follow it, the run raises the register-mismatch error with the position 1 of the
  offending unit, and ends in the state \<open>s1\<close> that the first unit left: the history
  holds the first unit only, and the second unit has not been compiled, locked, executed
  or appended.  The same holds for a later call on an engine \<open>t\<close> with a history: the
  error names the position \<open>length (run_progs t)\<close> and \<open>t\<close> is unchanged.
\<close>

theorem register_mismatch:
  assumes first: "LocalEngine_run_unit e shots co None p0 s = Some (Inr p0', s1)"
    and fresh: "run_progs s = []"
    and bad: "\<not> can_follow e (heap s1) p p0'"
    and hist: "run_progs t \<noteq> []"
    and bad_t: "\<not> can_follow e (heap t) p (last (run_progs t))"
  shows "LocalEngine_run e (p0 # p # ps) shots co modes so s =
           Some (Inl (RegisterMismatch 1 (name (progs (heap s1) p))), s1) \<and>
         run_progs s1 = [p0'] \<and>
         LocalEngine_run e (p # ps) shots co modes so t =
           Some (Inl (RegisterMismatch (length (run_progs t)) (name (progs (heap t) p))), t)"
proof -
  have h1: "run_progs s1 = [p0']"
    using local_run_unit_effects(2)[OF first] fresh by simp
  have "LocalEngine_run_units e shots co None (p0 # p # ps) s =
          Some (Inl (RegisterMismatch 1 (name (progs (heap s1) p))), s1)"
    using first h1
      run_unit_mismatch[OF bad, of LocalEngine_init_backend
        "\<lambda>prog k t. Some (LocalEngine_run_program e prog k t)" shots co]
    by simp
  then have one: "LocalEngine_run e (p0 # p # ps) shots co modes so s =
           Some (Inl (RegisterMismatch 1 (name (progs (heap s1) p))), s1)"
    using fresh by (simp add: LocalEngine_run_def LocalEngine_super_run_units)
  have "LocalEngine_run_units e shots co (Some (last (run_progs t))) (p # ps) t =
          Some (Inl (RegisterMismatch (length (run_progs t)) (name (progs (heap t) p))), t)"
    using run_unit_mismatch[OF bad_t, of LocalEngine_init_backend
        "\<lambda>prog k t. Some (LocalEngine_run_program e prog k t)" shots co]
    by simp
  then have two: "LocalEngine_run e (p # ps) shots co modes so t =
           Some (Inl (RegisterMismatch (length (run_progs t)) (name (progs (heap t) p))), t)"
    using hist by (simp add: LocalEngine_run_def LocalEngine_super_run_units)
  from one h1 two show ?thesis by simp
qed






subsection \<open>Runs of the sample programs\<close>

lemmas local_defs =
  run_unit_def fresh_local_def ran_A_def LocalEngine_init_def LocalEngine_init_backend_def
  LocalEngine_run_program_def local_env_def local_heap_def prog_A_def prog_B_def prog_C_def lock_def
  sorted_vals_def List.map_filter_def normalize_sample_def measure_outcome_def Let_def

lemma run_unit_A:
  "LocalEngine_run_unit local_env shots no_options None 0 fresh_local = Some (Inr 0, ran_A shots)"
  by (simp add: local_defs)

text \<open>
  \<open>prog_C\<close> has three registers and cannot follow \<open>prog_A\<close>, in the same call or in a
  later one.
\<close>

theorem register_mismatch_witness:
  "LocalEngine_run local_env [0, 2] 3 no_options None no_options fresh_local =
     Some (Inl (RegisterMismatch 1 ''C''), ran_A 3) \<and>
   run_progs (ran_A 3) = [0] \<and>
   LocalEngine_run local_env [2] 3 no_options None no_options (ran_A 3) =
     Some (Inl (RegisterMismatch 1 ''C''), ran_A 3)"
proof -
  have fresh: "run_progs fresh_local = []"
    by (simp add: fresh_local_def LocalEngine_init_def)
  have bad: "\<not> can_follow local_env (heap (ran_A 3)) 2 0"
    by (simp add: local_defs)
  have hist: "run_progs (ran_A 3) \<noteq> []" and last: "last (run_progs (ran_A 3)) = 0"
    by (simp_all add: ran_A_def)
  have nm: "name (progs (heap (ran_A 3)) 2) = ''C''"
    by (simp add: local_defs)
  have rp: "run_progs (ran_A 3) = [0]"
    by (simp add: ran_A_def)
  from register_mismatch[where ps = "[]" and modes = None and so = no_options,
         OF run_unit_A fresh bad hist bad[folded last]]
  show ?thesis by (simp add: nm rp)
qed

text \<open>
  \<open>prog_A\<close> and \<open>prog_B\<close> in one call on a fresh engine, and \<open>prog_B\<close> on an engine that
  has run \<open>prog_A\<close>: the backend has been initialised once, with two registers.
\<close>

theorem backend_initialised_once_witness:
  "(\<exists>r s'. LocalEngine_run local_env [0, 1] 1 no_options None no_options fresh_local = Some (r, s') \<and>
       begin_circuits (LocalEngine.backend s') = [2]) \<and>
   (\<exists>r s'. LocalEngine_run local_env [1] 1 no_options None no_options (ran_A 1) = Some (r, s') \<and>
       begin_circuits (LocalEngine.backend s') = [2]) \<and>
   begin_circuits (LocalEngine.backend (ran_A 1)) = [] @ [2] \<and> run_progs (ran_A 1) \<noteq> []"
proof -
  have f: "run_progs fresh_local = []" "LocalEngine.backend fresh_local = []"
    "init_num_subsystems (progs (heap fresh_local) 0) = 2"
    by (simp_all add: local_defs)
  have a: "run_progs (ran_A 1) \<noteq> []" "begin_circuits (LocalEngine.backend (ran_A 1)) = [2]"
    by (simp_all add: ran_A_def)
  note T1 = backend_initialised_once[where e = local_env and program = "[0, 1]" and shots = 1
               and co = no_options and modes = None and so = no_options and s = fresh_local
               and prev = None and p = 0 and ?r1.0 = "Inr 0" and ?s1.0 = "ran_A 1"]
  note T2 = backend_initialised_once[where e = local_env and program = "[1]" and shots = 1
               and co = no_options and modes = None and so = no_options and s = "ran_A 1"
               and prev = None and p = 0 and ?r1.0 = "Inr 0" and ?s1.0 = "ran_A 1"]
  from T1 have c1: "\<exists>r s'. LocalEngine_run local_env [0, 1] 1 no_options None no_options fresh_local = Some (r, s') \<and>
       begin_circuits (LocalEngine.backend s') = [2]"
    using f by simp
  from T2 have c2: "\<exists>r s'. LocalEngine_run local_env [1] 1 no_options None no_options (ran_A 1) = Some (r, s') \<and>
       begin_circuits (LocalEngine.backend s') = [2]"
    using a by simp
  from T1 run_unit_A[of 1] f have c3: "begin_circuits (LocalEngine.backend (ran_A 1)) = [] @ [2] \<and> run_progs (ran_A 1) \<noteq> []"
    by simp
  from c1 c2 c3 show ?thesis by blast
qed


text \<open>
  C1.  The code at an input where the two ways of running differ.  \<open>prog_A\<close> measures 3
  in register 0 and \<open>prog_B\<close>, which can follow it, measures nothing.  Run in one call,
  the value 3 is copied into the register of \<open>prog_B\<close> and returned.  Run in two calls,
  \<open>list(self.samples)\<close> at the end of the first call has exhausted the iterator in
  \<open>self.samples\<close>, the loop of lines 250 and 251 copies nothing in the second call, and
  the second call returns \<open>None\<close> for register 0.
\<close>

theorem chaining_one_call_and_single_calls:
  "map_option fst (LocalEngine_super_run local_env [0, 1] 1 no_options fresh_local) =
     Some (Inr \<lparr>state = None, Result.samples = VList [VNum 3, VNone]\<rparr>) \<and>
   map_option fst (run_one_at_a_time local_env [0, 1] 1 no_options fresh_local) =
     Some (Inr \<lparr>state = None, Result.samples = VList [VNone, VNone]\<rparr>)"
  by (simp add: LocalEngine_super_run_units local_defs Result_init_def)

end
